theory Spec2Isabelle
  imports Main
begin

section \<open>The validation package: data model\<close>

text \<open>
  The Go package \<^verbatim>\<open>validator\<close> (file \<^verbatim>\<open>validation.go\<close>) keeps a list of pointers to
  error records and hands the same pointers out in its results. The embedding therefore
  has an explicit store: a \<^verbatim>\<open>*ValidationError\<close> is either nil or an address, and an
  address is an index into the list of allocated records.
\<close>

text \<open>Values passed as \<^verbatim>\<open>interface{}\<close>: the value under test and the format operands.\<close>

datatype gval = VNil | VInt int | VStr string | VSlice "gval list"

text \<open>\<^verbatim>\<open>type ValidationError struct { Message, Key string }\<close>\<close>

record ValidationError =
  Message :: string
  Key :: string

text \<open>A \<^verbatim>\<open>*ValidationError\<close>: \<open>None\<close> is nil, \<open>Some a\<close> the record allocated at address \<open>a\<close>.\<close>

type_synonym ptr = "nat option"

text \<open>\<^verbatim>\<open>type Validation struct { Errors []*ValidationError; keep bool }\<close>\<close>

record Validation =
  Errors :: "ptr list"
  keep :: bool

text \<open>\<^verbatim>\<open>type ValidationResult struct { Error *ValidationError; Ok bool }\<close>\<close>

record ValidationResult =
  Error :: ptr
  Ok :: bool

text \<open>
  The \<^verbatim>\<open>Validator\<close> interface is used through its two methods only; the rule types that
  implement it live outside this file. A rule is the pair of its methods.
\<close>

record Validator =
  IsSatisfied :: "gval \<Rightarrow> bool"
  DefaultMessage :: string

text \<open>
  What lies outside a \<^verbatim>\<open>Validation\<close> value: the store of error records, the messages
  handed to \<^verbatim>\<open>log.Info\<close>, and the rules whose \<^verbatim>\<open>IsSatisfied\<close> has been invoked, in order.
\<close>

record world =
  heap :: "ValidationError list"
  logged :: "string list"
  invoked :: "Validator list"

text \<open>Reading through a pointer faults on nil; an address outside the store is no Go pointer.\<close>

datatype panic = NilDereference | InvalidAddress

definition deref :: "world \<Rightarrow> ptr \<Rightarrow> panic + ValidationError" where
  "deref w p =
     (case p of
        None \<Rightarrow> Inl NilDereference
      | Some a \<Rightarrow> if a < length (heap w) then Inr (heap w ! a) else Inl InvalidAddress)"

text \<open>\<^verbatim>\<open>&ValidationError{...}\<close>: the new record takes the next free address.\<close>

definition alloc :: "world \<Rightarrow> ValidationError \<Rightarrow> nat \<times> world" where
  "alloc w e = (length (heap w), w\<lparr>heap := heap w @ [e]\<rparr>)"

section \<open>Library functions the package calls\<close>

text \<open>\<^verbatim>\<open>strconv.Itoa\<close>: the decimal numeral of an integer.\<close>

fun digits :: "nat \<Rightarrow> string" where
  "digits n =
     (if n < 10 then [''0123456789'' ! n]
      else digits (n div 10) @ [''0123456789'' ! (n mod 10)])"

declare digits.simps [simp del]

definition Itoa :: "int \<Rightarrow> string" where
  "Itoa i = (if i < 0 then CHR ''-'' # digits (nat (- i)) else digits (nat i))"

text \<open>
  \<^verbatim>\<open>runtime.Caller(skip)\<close> with \<^verbatim>\<open>runtime.FuncForPC(pc).Name()\<close>: the call stack is a list of
  frames, innermost first, each the name of a function and the line it is executing.
  \<open>skip = 0\<close> is the function that calls \<^verbatim>\<open>runtime.Caller\<close>; a \<open>skip\<close> beyond the stack
  gives \<^verbatim>\<open>ok = false\<close>.
\<close>

type_synonym frame = "string \<times> int"

definition runtime_Caller :: "frame list \<Rightarrow> nat \<Rightarrow> frame option" where
  "runtime_Caller stack skip = (if skip < length stack then Some (stack ! skip) else None)"

section \<open>The methods\<close>

text \<open>
  A method takes the world and its receiver and returns, beside its result, what it may
  have changed. Receivers are non-nil. The last argument of the methods that reach
  \<^verbatim>\<open>runtime.Caller\<close> is the stack of their callers: its head is the frame of the function
  that called the method, at the line of that call.
\<close>

text \<open>\<^verbatim>\<open>func (e *ValidationError) String() string\<close>\<close>

definition ValidationError_String :: "world \<Rightarrow> ptr \<Rightarrow> panic + string" where
  "ValidationError_String w e =
     (if e = None then Inr ''''
      else case deref w e of Inl p \<Rightarrow> Inl p | Inr err \<Rightarrow> Inr (Message err))"

text \<open>\<^verbatim>\<open>func (v *Validation) Keep()\<close>, \<^verbatim>\<open>Clear()\<close>, \<^verbatim>\<open>HasErrors()\<close>\<close>

definition Validation_Keep :: "Validation \<Rightarrow> Validation" where
  "Validation_Keep v = v\<lparr>keep := True\<rparr>"

definition Validation_Clear :: "Validation \<Rightarrow> Validation" where
  "Validation_Clear v = v\<lparr>Errors := []\<rparr>"

definition Validation_HasErrors :: "Validation \<Rightarrow> bool" where
  "Validation_HasErrors v = (length (Errors v) > 0)"

text \<open>
  \<^verbatim>\<open>func (v *Validation) ErrorMap() map[string]*ValidationError\<close>: the loop over
  \<^verbatim>\<open>v.Errors\<close> reads \<^verbatim>\<open>e.Key\<close> and stores \<^verbatim>\<open>e\<close> when the key is not yet bound.
\<close>

fun ErrorMap_loop :: "world \<Rightarrow> ptr list \<Rightarrow> (string \<rightharpoonup> ptr) \<Rightarrow> panic + (string \<rightharpoonup> ptr)" where
  "ErrorMap_loop w [] m = Inr m"
| "ErrorMap_loop w (e # es) m =
     (case deref w e of
        Inl p \<Rightarrow> Inl p
      | Inr err \<Rightarrow>
          ErrorMap_loop w es (if m (Key err) = None then m(Key err \<mapsto> e) else m))"

definition Validation_ErrorMap ::
  "world \<Rightarrow> Validation \<Rightarrow> (panic + (string \<rightharpoonup> ptr)) \<times> world \<times> Validation" where
  "Validation_ErrorMap w v = (ErrorMap_loop w (Errors v) Map.empty, w, v)"

text \<open>\<^verbatim>\<open>func (r *ValidationResult) Key(key string) *ValidationResult\<close>\<close>

definition ValidationResult_Key ::
  "world \<Rightarrow> ValidationResult \<Rightarrow> string \<Rightarrow> ValidationResult \<times> world" where
  "ValidationResult_Key w r key =
     (case Error r of
        None \<Rightarrow> (r, w)
      | Some a \<Rightarrow> (r, w\<lparr>heap := (heap w)[a := (heap w ! a)\<lparr>Key := key\<rparr>]\<rparr>))"

text \<open>
  \<^verbatim>\<open>func (r *ValidationResult) Message(message string, args ...interface{})\<close>. The
  formatter \<^verbatim>\<open>fmt.Sprintf\<close> is a parameter; it is called as
  \<^verbatim>\<open>fmt.Sprintf(message, args)\<close>, so its operand list has one element, the slice \<^verbatim>\<open>args\<close>.
\<close>

definition ValidationResult_Message ::
  "(string \<Rightarrow> gval list \<Rightarrow> string) \<Rightarrow> world \<Rightarrow> ValidationResult \<Rightarrow> string \<Rightarrow> gval list
     \<Rightarrow> ValidationResult \<times> world" where
  "ValidationResult_Message sprintf w r message args =
     (case Error r of
        None \<Rightarrow> (r, w)
      | Some a \<Rightarrow>
          if length args = 0
          then (r, w\<lparr>heap := (heap w)[a := (heap w ! a)\<lparr>Message := message\<rparr>]\<rparr>)
          else (r, w\<lparr>heap := (heap w)[a := (heap w ! a)\<lparr>Message := sprintf message [VSlice args]\<rparr>]\<rparr>))"

text \<open>
  \<^verbatim>\<open>func (v *Validation) Error(message string, args ...interface{})\<close>: a fresh, empty
  record, then \<^verbatim>\<open>.Message(message, args)\<close>, whose variadic list is the one slice \<^verbatim>\<open>args\<close>.
\<close>

definition Validation_Error ::
  "(string \<Rightarrow> gval list \<Rightarrow> string) \<Rightarrow> world \<Rightarrow> Validation \<Rightarrow> string \<Rightarrow> gval list
     \<Rightarrow> ValidationResult \<times> world \<times> Validation" where
  "Validation_Error sprintf w v message args =
     (case alloc w \<lparr>Message = '''', Key = ''''\<rparr> of
        (a, w1) \<Rightarrow>
          (case ValidationResult_Message sprintf w1 \<lparr>Error = Some a, Ok = False\<rparr> message
                  [VSlice args] of
             (r, w2) \<Rightarrow> (r, w2, v)))"

text \<open>
  \<^verbatim>\<open>func (v *Validation) apply(chk Validator, obj interface{}) *ValidationResult\<close>. The
  names of the package's own frames do not reach the key.
\<close>

definition apply_frame :: frame where
  "apply_frame = (''validator.(*Validation).apply'', 131)"

definition caller_info_message :: string where
  "caller_info_message = ''Failed to get Caller information to look up Validation key''"

text \<open>The block of \<^verbatim>\<open>apply\<close> that computes the default key (lines 130 to 136).\<close>

definition default_key :: "world \<Rightarrow> frame list \<Rightarrow> string \<times> world" where
  "default_key w stack =
     (case runtime_Caller stack 2 of
        Some (name, line) \<Rightarrow> (name @ ''#'' @ Itoa line, w)
      | None \<Rightarrow> ('''', w\<lparr>logged := logged w @ [caller_info_message]\<rparr>))"

definition Validation_apply ::
  "world \<Rightarrow> Validation \<Rightarrow> Validator \<Rightarrow> gval \<Rightarrow> frame list
     \<Rightarrow> ValidationResult \<times> world \<times> Validation" where
  "Validation_apply w v chk obj callers =
     (let w1 = w\<lparr>invoked := invoked w @ [chk]\<rparr> in
      if IsSatisfied chk obj then (\<lparr>Error = None, Ok = True\<rparr>, w1, v)
      else
        case default_key w1 (apply_frame # callers) of
          (key, w2) \<Rightarrow>
            (case alloc w2 \<lparr>Message = DefaultMessage chk, Key = key\<rparr> of
               (err, w3) \<Rightarrow>
                 (\<lparr>Error = Some err, Ok = False\<rparr>, w3, v\<lparr>Errors := Errors v @ [Some err]\<rparr>)))"

text \<open>
  \<^verbatim>\<open>func (v *Validation) Required(obj interface{})\<close>: \<^verbatim>\<open>v.apply(Required{}, obj)\<close> at line 89.
  The rule \<^verbatim>\<open>Required{}\<close> is declared outside this file and is a parameter.
\<close>

definition Required_frame :: frame where
  "Required_frame = (''validator.(*Validation).Required'', 89)"

definition Validation_Required ::
  "Validator \<Rightarrow> world \<Rightarrow> Validation \<Rightarrow> gval \<Rightarrow> frame list
     \<Rightarrow> ValidationResult \<times> world \<times> Validation" where
  "Validation_Required required w v obj callers =
     Validation_apply w v required obj (Required_frame # callers)"

text \<open>
  \<^verbatim>\<open>func (v *Validation) Check(obj interface{}, checks ...Validator)\<close>: the loop carries
  \<^verbatim>\<open>result\<close>, nil (\<open>None\<close>) before the first rule.
\<close>

definition Check_frame :: frame where
  "Check_frame = (''validator.(*Validation).Check'', 158)"

fun Check_loop ::
  "world \<Rightarrow> Validation \<Rightarrow> gval \<Rightarrow> Validator list \<Rightarrow> frame list \<Rightarrow> ValidationResult option
     \<Rightarrow> ValidationResult option \<times> world \<times> Validation" where
  "Check_loop w v obj [] stack result = (result, w, v)"
| "Check_loop w v obj (check # checks) stack result =
     (case Validation_apply w v check obj stack of
        (r, w', v') \<Rightarrow>
          if \<not> Ok r then (Some r, w', v')
          else Check_loop w' v' obj checks stack (Some r))"

definition Validation_Check ::
  "world \<Rightarrow> Validation \<Rightarrow> gval \<Rightarrow> Validator list \<Rightarrow> frame list
     \<Rightarrow> ValidationResult option \<times> world \<times> Validation" where
  "Validation_Check w v obj checks callers =
     Check_loop w v obj checks (Check_frame # callers) None"

section \<open>Well-formed contexts\<close>

text \<open>
  Every element of \<^verbatim>\<open>Errors\<close> that the package itself appends is the address of a record
  it has just allocated. A context is well formed when \<^verbatim>\<open>Errors\<close> holds no nil pointer and
  no address outside the store.
\<close>

definition allocated :: "world \<Rightarrow> ptr \<Rightarrow> bool" where
  "allocated w p = (case p of None \<Rightarrow> False | Some a \<Rightarrow> a < length (heap w))"

definition well_formed :: "world \<Rightarrow> Validation \<Rightarrow> bool" where
  "well_formed w v = list_all (allocated w) (Errors v)"

text \<open>The record behind a pointer has the key \<open>k\<close>.\<close>

definition carries_key :: "world \<Rightarrow> string \<Rightarrow> ptr \<Rightarrow> bool" where
  "carries_key w k p = (case deref w p of Inl _ \<Rightarrow> False | Inr e \<Rightarrow> Key e = k)"

section \<open>Example inputs\<close>

text \<open>
  Two rules, a fresh context, and a context that holds three errors, two of them under
  the key \<open>name\<close>. They are the concrete inputs of the instances below.
\<close>

definition example_nonempty :: Validator where
  "example_nonempty =
     \<lparr>IsSatisfied = (\<lambda>x. x \<noteq> VStr []), DefaultMessage = ''Required''\<rparr>"

definition example_minimum :: "int \<Rightarrow> Validator" where
  "example_minimum n =
     \<lparr>IsSatisfied = (\<lambda>x. case x of VInt i \<Rightarrow> n \<le> i | _ \<Rightarrow> False),
      DefaultMessage = ''Minimum is '' @ Itoa n\<rparr>"

definition fresh_world :: world where
  "fresh_world = \<lparr>heap = [], logged = [], invoked = []\<rparr>"

definition fresh_validation :: Validation where
  "fresh_validation = \<lparr>Errors = [], keep = False\<rparr>"

definition error_A :: ValidationError where
  "error_A = \<lparr>Message = ''Required'', Key = ''name''\<rparr>"

definition error_B :: ValidationError where
  "error_B = \<lparr>Message = ''Minimum is 5'', Key = ''name''\<rparr>"

definition error_C :: ValidationError where
  "error_C = \<lparr>Message = ''Required'', Key = ''age''\<rparr>"

definition used_world :: world where
  "used_world = \<lparr>heap = [error_A, error_B, error_C], logged = [], invoked = []\<rparr>"

definition used_validation :: Validation where
  "used_validation = \<lparr>Errors = [Some 0, Some 1, Some 2], keep = False\<rparr>"

section \<open>What one call of apply does\<close>

lemma default_key_frame [simp]:
  "heap (snd (default_key w stack)) = heap w"
  "invoked (snd (default_key w stack)) = invoked w"
  by (simp_all add: default_key_def split: option.split prod.split)

lemma default_key_found:
  "default_key w (f0 # f1 # (name, line) # rest) = (name @ ''#'' @ Itoa line, w)"
  by (simp add: default_key_def runtime_Caller_def)

lemma default_key_missing:
  "length stack \<le> 2 \<Longrightarrow>
   default_key w stack = ('''', w\<lparr>logged := logged w @ [caller_info_message]\<rparr>)"
  by (simp add: default_key_def runtime_Caller_def)

lemma apply_eq_satisfied:
  assumes "IsSatisfied chk obj"
  shows "Validation_apply w v chk obj callers =
           (\<lparr>Error = None, Ok = True\<rparr>, w\<lparr>invoked := invoked w @ [chk]\<rparr>, v)"
  using assms by (simp add: Validation_apply_def)

lemma apply_eq_unsatisfied:
  assumes "\<not> IsSatisfied chk obj"
  shows "Validation_apply w v chk obj callers =
           (\<lparr>Error = Some (length (heap w)), Ok = False\<rparr>,
            (snd (default_key (w\<lparr>invoked := invoked w @ [chk]\<rparr>) (apply_frame # callers)))
              \<lparr>heap := heap w @ [\<lparr>Message = DefaultMessage chk,
                 Key = fst (default_key (w\<lparr>invoked := invoked w @ [chk]\<rparr>)
                             (apply_frame # callers))\<rparr>]\<rparr>,
            v\<lparr>Errors := Errors v @ [Some (length (heap w))]\<rparr>)"
  using assms
  by (simp add: Validation_apply_def alloc_def case_prod_beta Let_def)

text \<open>
  C1. When the rule is not satisfied, \<^verbatim>\<open>apply\<close> returns \<open>Ok = False\<close> with a non-nil
  \<open>Error\<close>; \<^verbatim>\<open>Errors\<close> is the old list with that one pointer appended (one element
  longer, the earlier elements as they were); the store is the old store with one record
  appended; and the record behind the returned pointer has the rule's default message.
\<close>

theorem apply_unsatisfied:
  assumes "\<not> IsSatisfied chk obj"
  shows "case Validation_apply w v chk obj callers of
           (r, w', v') \<Rightarrow>
             Ok r = False \<and> Error r = Some (length (heap w)) \<and>
             Errors v' = Errors v @ [Error r] \<and>
             length (Errors v') = length (Errors v) + 1 \<and>
             take (length (Errors v)) (Errors v') = Errors v \<and>
             keep v' = keep v \<and>
             length (heap w') = length (heap w) + 1 \<and>
             take (length (heap w)) (heap w') = heap w \<and>
             (\<exists>e. deref w' (Error r) = Inr e \<and> Message e = DefaultMessage chk)"
  by (simp add: apply_eq_unsatisfied [OF assms] deref_def)

theorem apply_unsatisfied_witness:
  "\<not> IsSatisfied example_nonempty (VStr []) \<and>
   (case Validation_apply used_world used_validation example_nonempty (VStr []) [] of
      (r, w', v') \<Rightarrow>
        Ok r = False \<and> Error r = Some (length (heap used_world)) \<and>
        Errors v' = Errors used_validation @ [Error r] \<and>
        length (Errors v') = length (Errors used_validation) + 1 \<and>
        take (length (Errors used_validation)) (Errors v') = Errors used_validation \<and>
        keep v' = keep used_validation \<and>
        length (heap w') = length (heap used_world) + 1 \<and>
        take (length (heap used_world)) (heap w') = heap used_world \<and>
        (\<exists>e. deref w' (Error r) = Inr e \<and> Message e = DefaultMessage example_nonempty))"
  using apply_unsatisfied [where chk = example_nonempty and obj = "VStr []"
      and w = used_world and v = used_validation and callers = "[]"]
  by (simp add: example_nonempty_def)

text \<open>
  C2. When the rule is satisfied, \<^verbatim>\<open>apply\<close> returns \<open>Ok = True\<close> with a nil \<open>Error\<close>, and
  the validation context, its \<^verbatim>\<open>Errors\<close> and the store of error records are as before.
\<close>

theorem apply_satisfied:
  assumes "IsSatisfied chk obj"
  shows "case Validation_apply w v chk obj callers of
           (r, w', v') \<Rightarrow>
             Ok r = True \<and> Error r = None \<and>
             v' = v \<and> Errors v' = Errors v \<and> length (Errors v') = length (Errors v) \<and>
             heap w' = heap w \<and> logged w' = logged w"
  by (simp add: apply_eq_satisfied [OF assms])

theorem apply_satisfied_witness:
  "IsSatisfied example_nonempty (VStr ''x'') \<and>
   (case Validation_apply used_world used_validation example_nonempty (VStr ''x'') [] of
      (r, w', v') \<Rightarrow>
        Ok r = True \<and> Error r = None \<and>
        v' = used_validation \<and> Errors v' = Errors used_validation \<and>
        length (Errors v') = length (Errors used_validation) \<and>
        heap w' = heap used_world \<and> logged w' = logged used_world)"
  using apply_satisfied [where chk = example_nonempty and obj = "VStr ''x''"
      and w = used_world and v = used_validation and callers = "[]"]
  by (simp add: example_nonempty_def)

section \<open>The chain of rules in Check\<close>

lemma Check_loop_satisfied:
  assumes "\<forall>r\<in>set pre. IsSatisfied r obj"
  shows "Check_loop w v obj (pre @ rest) stack res =
           Check_loop (w\<lparr>invoked := invoked w @ pre\<rparr>) v obj rest stack
             (if pre = [] then res else Some \<lparr>Error = None, Ok = True\<rparr>)"
  using assms
proof (induction pre arbitrary: w res)
  case Nil
  then show ?case by simp
next
  case (Cons r pre)
  then have sat: "IsSatisfied r obj" and rest: "\<forall>r\<in>set pre. IsSatisfied r obj"
    by simp_all
  show ?case
    by (simp add: apply_eq_satisfied [OF sat] Cons.IH [OF rest])
qed

text \<open>
  C3. \<^verbatim>\<open>Check\<close> applies the rules in order. With no rule it returns a nil result and
  changes nothing. When the rules \<open>pre\<close> are satisfied and the next rule \<open>chk\<close> is not,
  the outcome is that of \<^verbatim>\<open>apply\<close> on \<open>chk\<close> after the rules of \<open>pre\<close>: its result is
  returned, one error is appended, and the rules whose \<^verbatim>\<open>IsSatisfied\<close> was invoked are
  those of \<open>pre\<close> and \<open>chk\<close>, none of the later rules \<open>post\<close>. When every rule is
  satisfied the result is that of the last rule and \<^verbatim>\<open>Errors\<close> is unchanged.
\<close>

theorem Check_short_circuit:
  "Validation_Check w v obj [] callers = (None, w, v) \<and>
   ((\<forall>r\<in>set pre. IsSatisfied r obj) \<and> \<not> IsSatisfied chk obj \<longrightarrow>
      (case Validation_apply (w\<lparr>invoked := invoked w @ pre\<rparr>) v chk obj
              (Check_frame # callers) of
         (r, w', v') \<Rightarrow>
           Validation_Check w v obj (pre @ chk # post) callers = (Some r, w', v') \<and>
           invoked w' = invoked w @ pre @ [chk] \<and>
           Errors v' = Errors v @ [Error r])) \<and>
   (checks \<noteq> [] \<and> (\<forall>r\<in>set checks. IsSatisfied r obj) \<longrightarrow>
      Validation_Check w v obj checks callers =
        (Some (fst (Validation_apply (w\<lparr>invoked := invoked w @ butlast checks\<rparr>) v
                      (last checks) obj (Check_frame # callers))),
         w\<lparr>invoked := invoked w @ checks\<rparr>, v))"
proof (intro conjI impI)
  show "Validation_Check w v obj [] callers = (None, w, v)"
    by (simp add: Validation_Check_def)
next
  assume "(\<forall>r\<in>set pre. IsSatisfied r obj) \<and> \<not> IsSatisfied chk obj"
  then have pre: "\<forall>r\<in>set pre. IsSatisfied r obj" and bad: "\<not> IsSatisfied chk obj"
    by simp_all
  show "case Validation_apply (w\<lparr>invoked := invoked w @ pre\<rparr>) v chk obj
              (Check_frame # callers) of
         (r, w', v') \<Rightarrow>
           Validation_Check w v obj (pre @ chk # post) callers = (Some r, w', v') \<and>
           invoked w' = invoked w @ pre @ [chk] \<and>
           Errors v' = Errors v @ [Error r]"
    by (simp add: Validation_Check_def Check_loop_satisfied [OF pre]
          apply_eq_unsatisfied [OF bad])
next
  assume "checks \<noteq> [] \<and> (\<forall>r\<in>set checks. IsSatisfied r obj)"
  then have ne: "checks \<noteq> []" and sat: "\<forall>r\<in>set checks. IsSatisfied r obj"
    by simp_all
  from ne sat have lastsat: "IsSatisfied (last checks) obj"
    by simp
  from Check_loop_satisfied [OF sat, of w v "[]" "Check_frame # callers" None] ne
  show "Validation_Check w v obj checks callers =
        (Some (fst (Validation_apply (w\<lparr>invoked := invoked w @ butlast checks\<rparr>) v
                      (last checks) obj (Check_frame # callers))),
         w\<lparr>invoked := invoked w @ checks\<rparr>, v)"
    by (simp add: Validation_Check_def apply_eq_satisfied [OF lastsat])
qed

theorem Check_short_circuit_witness:
  "IsSatisfied example_nonempty (VStr ''a'') \<and>
   \<not> IsSatisfied (example_minimum 5) (VStr ''a'') \<and>
   Validation_Check fresh_world fresh_validation (VStr ''a'') [] [(''main.handler'', 42)] =
     (None, fresh_world, fresh_validation) \<and>
   Validation_Check fresh_world fresh_validation (VStr ''a'')
       [example_nonempty, example_minimum 5, example_nonempty] [(''main.handler'', 42)] =
     (Some \<lparr>Error = Some 0, Ok = False\<rparr>,
      \<lparr>heap = [\<lparr>Message = ''Minimum is 5'', Key = ''main.handler#42''\<rparr>], logged = [],
        invoked = [example_nonempty, example_minimum 5]\<rparr>,
      \<lparr>Errors = [Some 0], keep = False\<rparr>) \<and>
   Validation_Check fresh_world fresh_validation (VStr ''a'')
       [example_nonempty, example_nonempty] [(''main.handler'', 42)] =
     (Some \<lparr>Error = None, Ok = True\<rparr>,
      \<lparr>heap = [], logged = [], invoked = [example_nonempty, example_nonempty]\<rparr>,
      fresh_validation)"
  using Check_short_circuit [where w = fresh_world and v = fresh_validation
      and obj = "VStr ''a''" and callers = "[(''main.handler'', 42)]"
      and pre = "[example_nonempty]" and chk = "example_minimum 5"
      and post = "[example_nonempty]" and checks = "[example_nonempty, example_nonempty]"]
  by (simp add: example_nonempty_def example_minimum_def fresh_world_def fresh_validation_def
        Validation_apply_def alloc_def default_key_def runtime_Caller_def Itoa_def
        digits.simps Check_frame_def)

section \<open>The map of errors by key\<close>

lemma deref_allocated: "allocated w p \<Longrightarrow> \<exists>e. deref w p = Inr e"
  by (cases p) (simp_all add: allocated_def deref_def)

lemma ErrorMap_loop_first:
  assumes "list_all (allocated w) es"
  shows "ErrorMap_loop w es m =
           Inr (\<lambda>k. case m k of Some p \<Rightarrow> Some p | None \<Rightarrow> find (carries_key w k) es)"
  using assms
proof (induction es arbitrary: m)
  case Nil
  then show ?case by (simp add: fun_eq_iff split: option.split)
next
  case (Cons e es)
  then have "allocated w e" and rest: "list_all (allocated w) es"
    by simp_all
  then obtain err where err: "deref w e = Inr err"
    using deref_allocated by blast
  show ?case
    by (auto simp: err Cons.IH [OF rest] carries_key_def fun_eq_iff split: option.split)
qed

text \<open>A nil element of \<^verbatim>\<open>Errors\<close> makes the loop fault when it reads \<^verbatim>\<open>e.Key\<close>.\<close>

lemma ErrorMap_loop_nil: "ErrorMap_loop w (None # es) m = Inl NilDereference"
  by (simp add: deref_def)

text \<open>
  C6. On a well-formed context \<^verbatim>\<open>ErrorMap\<close> returns the map that binds each key to the
  first element of \<^verbatim>\<open>Errors\<close> whose record carries that key, and binds no other key; the
  context and the store come back as they were.
\<close>

theorem ErrorMap_first_wins:
  assumes "well_formed w v"
  shows "Validation_ErrorMap w v = (Inr (\<lambda>k. find (carries_key w k) (Errors v)), w, v)"
  using assms
  by (simp add: Validation_ErrorMap_def well_formed_def ErrorMap_loop_first)

theorem ErrorMap_first_wins_witness:
  "well_formed used_world used_validation \<and>
   (case Validation_ErrorMap used_world used_validation of
      (res, w', v') \<Rightarrow>
        w' = used_world \<and> v' = used_validation \<and>
        (case res of
           Inl _ \<Rightarrow> False
         | Inr m \<Rightarrow>
             m ''name'' = Some (Some 0) \<and> m ''age'' = Some (Some 2) \<and> m ''other'' = None))"
  using ErrorMap_first_wins [where w = used_world and v = used_validation]
  by (simp add: well_formed_def allocated_def used_world_def used_validation_def
        carries_key_def deref_def error_A_def error_B_def error_C_def)

text \<open>
  Two failures recorded in a fresh context, both then given the key \<open>name\<close>: the map
  binds \<open>name\<close> to the first of them.
\<close>

lemma ErrorMap_after_two_failures:
  "(case Validation_apply fresh_world fresh_validation example_nonempty (VStr []) [] of
      (r1, w1, v1) \<Rightarrow>
        (case ValidationResult_Key w1 r1 ''name'' of
           (_, w2) \<Rightarrow>
             (case Validation_apply w2 v1 (example_minimum 5) (VStr []) [] of
                (r3, w3, v3) \<Rightarrow>
                  (case ValidationResult_Key w3 r3 ''name'' of
                     (_, w4) \<Rightarrow>
                       Errors v3 = [Error r1, Error r3] \<and> Error r1 \<noteq> Error r3 \<and>
                       (case fst (Validation_ErrorMap w4 v3) of
                          Inl _ \<Rightarrow> False
                        | Inr m \<Rightarrow> m ''name'' = Some (Error r1))))))"
  by (simp add: example_nonempty_def example_minimum_def fresh_world_def fresh_validation_def
        apply_eq_unsatisfied ValidationResult_Key_def Validation_ErrorMap_def deref_def)

section \<open>Well-formedness is kept\<close>

lemma allocated_mono:
  "allocated w p \<Longrightarrow> length (heap w) \<le> length (heap w') \<Longrightarrow> allocated w' p"
  by (cases p) (simp_all add: allocated_def)

lemma well_formed_mono:
  "well_formed w v \<Longrightarrow> length (heap w) \<le> length (heap w') \<Longrightarrow> well_formed w' v"
  unfolding well_formed_def list_all_iff using allocated_mono by blast

lemma well_formed_fresh: "well_formed w \<lparr>Errors = [], keep = b\<rparr>"
  by (simp add: well_formed_def)

lemma well_formed_apply:
  assumes "well_formed w v"
  shows "case Validation_apply w v chk obj callers of (r, w', v') \<Rightarrow> well_formed w' v'"
proof (cases "IsSatisfied chk obj")
  case True
  have "well_formed (w\<lparr>invoked := invoked w @ [chk]\<rparr>) v"
    by (rule well_formed_mono [OF assms]) simp
  with True show ?thesis
    by (simp add: apply_eq_satisfied)
next
  case False
  have "well_formed (w'\<lparr>heap := heap w @ [e]\<rparr>) v" for w' e
    by (rule well_formed_mono [OF assms]) simp
  then have "well_formed (w'\<lparr>heap := heap w @ [e]\<rparr>)
               (v\<lparr>Errors := Errors v @ [Some (length (heap w))]\<rparr>)" for w' e
    by (simp add: well_formed_def allocated_def)
  with False show ?thesis
    by (simp add: apply_eq_unsatisfied)
qed

lemma well_formed_Check_loop:
  assumes "well_formed w v"
  shows "case Check_loop w v obj checks stack res of (r, w', v') \<Rightarrow> well_formed w' v'"
  using assms
proof (induction checks arbitrary: w v res)
  case Nil
  then show ?case by simp
next
  case (Cons chk checks)
  obtain r w1 v1 where ap: "Validation_apply w v chk obj stack = (r, w1, v1)"
    by (cases "Validation_apply w v chk obj stack") auto
  with well_formed_apply [OF Cons.prems, of chk obj stack] have wf1: "well_formed w1 v1"
    by simp
  show ?case
    using Cons.IH [OF wf1] wf1 by (simp add: ap)
qed

lemma well_formed_Check:
  assumes "well_formed w v"
  shows "case Validation_Check w v obj checks callers of (r, w', v') \<Rightarrow> well_formed w' v'"
  unfolding Validation_Check_def by (rule well_formed_Check_loop [OF assms])

lemma well_formed_Clear: "well_formed w (Validation_Clear v)"
  by (simp add: well_formed_def Validation_Clear_def)

lemma well_formed_Keep: "well_formed w v \<Longrightarrow> well_formed w (Validation_Keep v)"
  by (simp add: well_formed_def Validation_Keep_def)

lemma well_formed_Key:
  assumes "well_formed w v"
  shows "well_formed (snd (ValidationResult_Key w r k)) v"
  by (rule well_formed_mono [OF assms]) (simp add: ValidationResult_Key_def split: option.split)

lemma well_formed_Message:
  assumes "well_formed w v"
  shows "well_formed (snd (ValidationResult_Message sprintf w r m args)) v"
  by (rule well_formed_mono [OF assms])
    (simp add: ValidationResult_Message_def split: option.split)

section \<open>The default key\<close>

text \<open>
  C7. When \<^verbatim>\<open>apply\<close> records a failure and the stack has a frame two levels above
  \<^verbatim>\<open>apply\<close>, the key of the new record is that frame's function name, \<open>#\<close>, and its line
  in decimal; for a convenience method such as \<^verbatim>\<open>Required\<close> that frame is the function
  that called the method, at the line of the call. When the stack has no such frame the
  diagnostic is logged, the key is empty, and the failure is recorded all the same.
\<close>

theorem default_key_is_call_site:
  assumes "\<not> IsSatisfied chk obj"
  shows "Validation_apply w v chk obj (f1 # (name, line) # rest) =
           (\<lparr>Error = Some (length (heap w)), Ok = False\<rparr>,
            w\<lparr>heap := heap w @
                 [\<lparr>Message = DefaultMessage chk, Key = name @ ''#'' @ Itoa line\<rparr>],
              invoked := invoked w @ [chk]\<rparr>,
            v\<lparr>Errors := Errors v @ [Some (length (heap w))]\<rparr>) \<and>
         Validation_Required chk w v obj ((name, line) # rest) =
           (\<lparr>Error = Some (length (heap w)), Ok = False\<rparr>,
            w\<lparr>heap := heap w @
                 [\<lparr>Message = DefaultMessage chk, Key = name @ ''#'' @ Itoa line\<rparr>],
              invoked := invoked w @ [chk]\<rparr>,
            v\<lparr>Errors := Errors v @ [Some (length (heap w))]\<rparr>) \<and>
         (length callers < 2 \<longrightarrow>
            Validation_apply w v chk obj callers =
              (\<lparr>Error = Some (length (heap w)), Ok = False\<rparr>,
               w\<lparr>heap := heap w @ [\<lparr>Message = DefaultMessage chk, Key = ''''\<rparr>],
                 logged := logged w @ [caller_info_message],
                 invoked := invoked w @ [chk]\<rparr>,
               v\<lparr>Errors := Errors v @ [Some (length (heap w))]\<rparr>))"
  by (simp add: Validation_Required_def apply_eq_unsatisfied [OF assms] default_key_found
        default_key_missing)

theorem default_key_is_call_site_witness:
  "\<not> IsSatisfied example_nonempty (VStr []) \<and>
   length ([Required_frame] :: frame list) < 2 \<and>
   Validation_Required example_nonempty fresh_world fresh_validation (VStr [])
       [(''main.handler'', 42)] =
     (\<lparr>Error = Some 0, Ok = False\<rparr>,
      \<lparr>heap = [\<lparr>Message = ''Required'', Key = ''main.handler#42''\<rparr>], logged = [],
        invoked = [example_nonempty]\<rparr>,
      \<lparr>Errors = [Some 0], keep = False\<rparr>) \<and>
   Validation_Required example_nonempty fresh_world fresh_validation (VStr []) [] =
     (\<lparr>Error = Some 0, Ok = False\<rparr>,
      \<lparr>heap = [\<lparr>Message = ''Required'', Key = ''''\<rparr>],
        logged = [''Failed to get Caller information to look up Validation key''],
        invoked = [example_nonempty]\<rparr>,
      \<lparr>Errors = [Some 0], keep = False\<rparr>)"
  using default_key_is_call_site [where chk = example_nonempty and obj = "VStr []"
      and w = fresh_world and v = fresh_validation and name = "''main.handler''"
      and line = 42 and rest = "[]" and callers = "[Required_frame]"]
  by (simp add: example_nonempty_def fresh_world_def fresh_validation_def
        Validation_Required_def Itoa_def digits.simps caller_info_message_def)

section \<open>Chaining on a result\<close>

text \<open>
  C8. After a failed \<^verbatim>\<open>apply\<close>, \<^verbatim>\<open>Key(k)\<close> on its result returns the same result and
  writes \<open>k\<close> into the record that the last element of \<^verbatim>\<open>Errors\<close> points to: that record
  is as before except for its key, the store keeps its length and its earlier records, and
  on a well-formed context every earlier element of \<^verbatim>\<open>Errors\<close> reads as before the call.
\<close>

theorem Key_overwrites_appended_error:
  assumes "\<not> IsSatisfied chk obj"
  shows "case Validation_apply w v chk obj callers of
           (r, w1, v1) \<Rightarrow>
             (case ValidationResult_Key w1 r k of
                (r', w2) \<Rightarrow>
                  r' = r \<and> Error r = last (Errors v1) \<and> butlast (Errors v1) = Errors v \<and>
                  (\<exists>e. deref w1 (last (Errors v1)) = Inr e \<and>
                       deref w2 (last (Errors v1)) = Inr (e\<lparr>Key := k\<rparr>)) \<and>
                  deref w2 (last (Errors v1)) =
                    Inr \<lparr>Message = DefaultMessage chk, Key = k\<rparr> \<and>
                  length (heap w2) = length (heap w1) \<and>
                  take (length (heap w)) (heap w2) = heap w \<and>
                  logged w2 = logged w1 \<and> invoked w2 = invoked w1 \<and>
                  (well_formed w v \<longrightarrow>
                     map (deref w2) (butlast (Errors v1)) = map (deref w) (Errors v)))"
proof -
  have "well_formed w v \<Longrightarrow>
        map (deref (w'\<lparr>heap := heap w @ [e]\<rparr>)) (Errors v) = map (deref w) (Errors v)" for w' e
    by (auto simp: well_formed_def list_all_iff allocated_def deref_def nth_append
          split: option.split)
  then show ?thesis
    by (simp add: apply_eq_unsatisfied [OF assms] ValidationResult_Key_def deref_def)
qed

theorem Key_overwrites_appended_error_witness:
  "\<not> IsSatisfied example_nonempty (VStr []) \<and> well_formed used_world used_validation \<and>
   (case Validation_apply used_world used_validation example_nonempty (VStr []) [] of
      (r, w1, v1) \<Rightarrow>
        (case ValidationResult_Key w1 r ''email'' of
           (r', w2) \<Rightarrow>
             r' = r \<and> Errors v1 = [Some 0, Some 1, Some 2, Some 3] \<and>
             heap w2 = [error_A, error_B, error_C, \<lparr>Message = ''Required'', Key = ''email''\<rparr>]))"
  using Key_overwrites_appended_error [where chk = example_nonempty and obj = "VStr []"
      and w = used_world and v = used_validation and callers = "[]" and k = "''email''"]
  by (simp add: example_nonempty_def used_world_def used_validation_def well_formed_def
        allocated_def apply_eq_unsatisfied ValidationResult_Key_def default_key_missing)

text \<open>
  C9. On a result whose \<open>Error\<close> is nil, \<^verbatim>\<open>Key\<close> and \<^verbatim>\<open>Message\<close> return the result as
  it is and leave the world, and with it every error record, unchanged; neither method
  reaches the \<^verbatim>\<open>Validation\<close> value. The result of a satisfied \<^verbatim>\<open>apply\<close> is such a result.
\<close>

theorem success_result_inert:
  "(Error r = None \<longrightarrow>
      ValidationResult_Key w r k = (r, w) \<and>
      ValidationResult_Message sprintf w r m args = (r, w)) \<and>
   (IsSatisfied chk obj \<longrightarrow>
      (case Validation_apply w v chk obj callers of
         (r1, w1, v1) \<Rightarrow>
           Ok r1 \<and> Error r1 = None \<and> v1 = v \<and>
           ValidationResult_Key w1 r1 k = (r1, w1) \<and>
           ValidationResult_Message sprintf w1 r1 m args = (r1, w1)))"
  by (simp add: ValidationResult_Key_def ValidationResult_Message_def apply_eq_satisfied)

theorem success_result_inert_witness:
  "Error \<lparr>Error = None, Ok = True\<rparr> = None \<and>
   IsSatisfied example_nonempty (VStr ''x'') \<and>
   ValidationResult_Key used_world \<lparr>Error = None, Ok = True\<rparr> ''email'' =
     (\<lparr>Error = None, Ok = True\<rparr>, used_world) \<and>
   ValidationResult_Message (\<lambda>m a. m) used_world \<lparr>Error = None, Ok = True\<rparr>
       ''%d is too small'' [VInt 5] =
     (\<lparr>Error = None, Ok = True\<rparr>, used_world) \<and>
   (case Validation_apply used_world used_validation example_nonempty (VStr ''x'') [] of
      (r1, w1, v1) \<Rightarrow>
        Ok r1 \<and> Error r1 = None \<and> v1 = used_validation \<and>
        ValidationResult_Key w1 r1 ''email'' = (r1, w1) \<and>
        ValidationResult_Message (\<lambda>m a. m) w1 r1 ''%d is too small'' [VInt 5] = (r1, w1))"
  using success_result_inert [where r = "\<lparr>Error = None, Ok = True\<rparr>" and w = used_world
      and v = used_validation and chk = example_nonempty and obj = "VStr ''x''"
      and callers = "[]" and k = "''email''" and sprintf = "\<lambda>m a. m"
      and m = "''%d is too small''" and args = "[VInt 5]"]
  by (simp add: example_nonempty_def)

section \<open>String\<close>

text \<open>
  C10. \<^verbatim>\<open>String\<close> on a nil receiver returns the empty string without reading through
  the pointer, and on the address of an allocated record it returns that record's
  \<open>Message\<close>.
\<close>

theorem String_total:
  "ValidationError_String w None = Inr '''' \<and>
   (a < length (heap w) \<longrightarrow>
      ValidationError_String w (Some a) = Inr (Message (heap w ! a)))"
  by (simp add: ValidationError_String_def deref_def)

theorem String_total_witness:
  "(1::nat) < length (heap used_world) \<and>
   ValidationError_String used_world None = Inr '''' \<and>
   ValidationError_String used_world (Some 1) = Inr ''Minimum is 5''"
  using String_total [where w = used_world and a = 1]
  by (simp add: used_world_def error_B_def)

section \<open>Message and Error\<close>

text \<open>
  What \<^verbatim>\<open>Message\<close> writes through a non-nil \<open>Error\<close>: the message itself when there
  is no argument, and otherwise the formatter's output for the one-operand list that holds
  the slice of the arguments.
\<close>

lemma Message_without_args:
  "Error r = Some a \<Longrightarrow>
   ValidationResult_Message sprintf w r message [] =
     (r, w\<lparr>heap := (heap w)[a := (heap w ! a)\<lparr>Message := message\<rparr>]\<rparr>)"
  by (simp add: ValidationResult_Message_def)

lemma Message_with_args:
  "Error r = Some a \<Longrightarrow> args \<noteq> [] \<Longrightarrow>
   ValidationResult_Message sprintf w r message args =
     (r, w\<lparr>heap := (heap w)[a := (heap w ! a)\<lparr>Message := sprintf message [VSlice args]\<rparr>]\<rparr>)"
  by (simp add: ValidationResult_Message_def)

text \<open>
  What \<^verbatim>\<open>Error\<close> does: it allocates one record with an empty key, writes the formatted
  message into it, and returns the \<^verbatim>\<open>Validation\<close> value as it received it.
\<close>

lemma Validation_Error_eq:
  "Validation_Error sprintf w v message args =
     (\<lparr>Error = Some (length (heap w)), Ok = False\<rparr>,
      w\<lparr>heap := heap w @
           [\<lparr>Message = sprintf message [VSlice [VSlice args]], Key = ''''\<rparr>]\<rparr>,
      v)"
  by (simp add: Validation_Error_def alloc_def ValidationResult_Message_def)

text \<open>
  C4. \<^verbatim>\<open>v.Error("boom")\<close> on a fresh context: the result has \<open>Ok = False\<close> and points
  to a new record with an empty key, but \<^verbatim>\<open>Errors\<close> stays empty, \<^verbatim>\<open>HasErrors\<close> is false
  and \<^verbatim>\<open>ErrorMap\<close> is empty; and the message is the formatter's output for an operand
  list that holds a slice, not the plain message.
\<close>

theorem Error_on_fresh_context:
  "(case Validation_Error sprintf fresh_world fresh_validation ''boom'' [] of
      (r, w', v') \<Rightarrow>
        Ok r = False \<and> Error r = Some 0 \<and>
        Errors v' = [] \<and> \<not> Validation_HasErrors v' \<and>
        fst (Validation_ErrorMap w' v') = Inr Map.empty \<and>
        deref w' (Error r) =
          Inr \<lparr>Message = sprintf ''boom'' [VSlice [VSlice []]], Key = ''''\<rparr>)"
  by (simp add: Validation_Error_def alloc_def ValidationResult_Message_def fresh_world_def
        fresh_validation_def Validation_HasErrors_def Validation_ErrorMap_def deref_def)

text \<open>
  C5. \<^verbatim>\<open>r.Message("%d is too small", 5)\<close> on the result of a failed check: the formatter
  is called with one operand, the slice that holds \<open>5\<close>, and not with the operand \<open>5\<close>.
\<close>

theorem Message_formats_the_slice:
  "ValidationResult_Message sprintf
     \<lparr>heap = [\<lparr>Message = ''Minimum is 18'', Key = ''age''\<rparr>], logged = [], invoked = []\<rparr>
     \<lparr>Error = Some 0, Ok = False\<rparr> ''%d is too small'' [VInt 5] =
   (\<lparr>Error = Some 0, Ok = False\<rparr>,
    \<lparr>heap = [\<lparr>Message = sprintf ''%d is too small'' [VSlice [VInt 5]], Key = ''age''\<rparr>],
      logged = [], invoked = []\<rparr>)"
  by (simp add: ValidationResult_Message_def)

end
